theory Spec2Isabelle
  imports Complex_Main "HOL-Library.AList" "HOL-Library.Multiset" "HOL-Library.Product_Lexorder"
begin

section \<open>The documents of the personalization engine\<close>

text \<open>
  The engine of \<^verbatim>\<open>feature_04_personalization_engine.py\<close> works on two JSON documents:
  the user document (preferences, history, ratings, bookmarks) and the catalog of books.

  A Python dict is an association list here: \<^const>\<open>map_of\<close> reads a key
  (\<^verbatim>\<open>d.get(k)\<close>, \<^verbatim>\<open>k in d\<close>) and \<^const>\<open>AList.update\<close> is the assignment \<^verbatim>\<open>d[k] = v\<close>,
  which overwrites a key where it stands and appends a new one, as Python's
  insertion-ordered dicts do.

  A preference value is a list of strings (genres, authors, themes, format_preference)
  or a single string (reading_level); \<^verbatim>\<open>add_preference\<close> tells them apart at run time
  with \<^verbatim>\<open>isinstance\<close>, and so does the datatype.
\<close>

datatype pref_value = PList "string list" | PStr string

type_synonym ('k, 'v) dict = "('k \<times> 'v) list"

record interaction =
  book_id :: string
  action :: string
  timestamp :: string
  rating :: "int option"

record profile =
  preferences :: "(string, pref_value) dict"
  history :: "interaction list"
  ratings :: "(string, int) dict"
  bookmarks :: "string list"
  created_at :: string

text \<open>
  A book is a dict that the engine only reads, always with \<^verbatim>\<open>book.get\<close>: every field may be
  absent (\<^const>\<open>None\<close>). Numbers of the catalog (ratings, popularity, views) are rationals,
  which covers JSON integers and finite decimals; the engine only compares them.
\<close>

record book =
  ident :: "string option"
  title :: "string option"
  author :: "string option"
  genres :: "string list option"
  themes :: "string list option"
  reading_level :: "string option"
  formats :: "string list option"
  average_rating :: "rat option"
  popularity :: "rat option"
  recent_views :: "rat option"
  added_date :: "string option"

text \<open>
  The engine object: \<^verbatim>\<open>self.user_data\<close>, the list \<^verbatim>\<open>self.catalog["books"]\<close>, and the content
  of the user's file (\<^const>\<open>None\<close> while the file does not exist), which
  \<^verbatim>\<open>save_user_data\<close> overwrites as a whole.
\<close>

record engine =
  user_data :: profile
  catalog :: "book list"
  user_file :: "profile option"

section \<open>Python operations the engine uses\<close>

text \<open>\<^verbatim>\<open>d.get(k, default)\<close>.\<close>

definition dict_get :: "('k, 'v) dict \<Rightarrow> 'k \<Rightarrow> 'v \<Rightarrow> 'v" where
  "dict_get d k dflt = (case map_of d k of None \<Rightarrow> dflt | Some v \<Rightarrow> v)"

text \<open>\<^verbatim>\<open>book.get(field, default)\<close> on an optional field of a book.\<close>

definition get_or :: "'a option \<Rightarrow> 'a \<Rightarrow> 'a" where
  "get_or field dflt = (case field of None \<Rightarrow> dflt | Some v \<Rightarrow> v)"

text \<open>
  \<^verbatim>\<open>set(v)\<close> and \<^verbatim>\<open>x in v\<close> on a preference value. Python iterates a string by its
  characters and reads \<^verbatim>\<open>in\<close> on a string as the substring test.
\<close>

fun is_substring :: "string \<Rightarrow> string \<Rightarrow> bool" where
  "is_substring x [] = (x = [])"
| "is_substring x (c # cs) = (take (length x) (c # cs) = x \<or> is_substring x cs)"

fun py_set :: "pref_value \<Rightarrow> string set" where
  "py_set (PList xs) = set xs"
| "py_set (PStr s) = set (map (\<lambda>c. [c]) s)"

fun py_in :: "string \<Rightarrow> pref_value \<Rightarrow> bool" where
  "py_in x (PList xs) = (x \<in> set xs)"
| "py_in x (PStr s) = is_substring x s"

text \<open>
  The slice \<^verbatim>\<open>xs[:n]\<close>: the first \<open>n\<close> elements, and for a negative \<open>n\<close> all but the
  last \<open>-n\<close>.
\<close>

definition py_slice_to :: "'a list \<Rightarrow> int \<Rightarrow> 'a list" where
  "py_slice_to xs n =
     (if 0 \<le> n then take (nat n) xs else take (length xs - nat (- n)) xs)"

text \<open>
  \<^verbatim>\<open>sorted(xs, key=key, reverse=True)\<close> and \<^verbatim>\<open>xs.sort(key=key, reverse=True)\<close>: Python's
  sort is stable, and with \<^verbatim>\<open>reverse=True\<close> it reverses the list, sorts it ascending and
  reverses the result, so that elements with equal keys keep their order.
\<close>

definition sorted_reverse :: "('a \<Rightarrow> 'k::linorder) \<Rightarrow> 'a list \<Rightarrow> 'a list" where
  "sorted_reverse key xs = rev (sort_key key (rev xs))"

section \<open>Loading and saving\<close>

definition default_user_data :: "string \<Rightarrow> profile" where
  "default_user_data now_iso =
     \<lparr> preferences =
         [(''genres'', PList []),
          (''authors'', PList []),
          (''themes'', PList []),
          (''reading_level'', PStr ''general''),
          (''format_preference'', PList [''digital'', ''audio''])],
       history = [],
       ratings = [],
       bookmarks = [],
       created_at = now_iso \<rparr>"

definition load_user_data :: "profile option \<Rightarrow> string \<Rightarrow> profile" where
  "load_user_data file now_iso =
     (case file of Some doc \<Rightarrow> doc | None \<Rightarrow> default_user_data now_iso)"

definition load_catalog :: "book list option \<Rightarrow> book list" where
  "load_catalog file = (case file of Some books \<Rightarrow> books | None \<Rightarrow> [])"

definition save_user_data :: "engine \<Rightarrow> engine" where
  "save_user_data self = self\<lparr>user_file := Some (user_data self)\<rparr>"

section \<open>Mutations\<close>

definition add_preference :: "engine \<Rightarrow> string \<Rightarrow> string \<Rightarrow> engine" where
  "add_preference self category value =
     (let prefs = preferences (user_data self);
          prefs' =
            (case map_of prefs category of
               None \<Rightarrow> prefs
             | Some (PList xs) \<Rightarrow>
                 if value \<notin> set xs then AList.update category (PList (xs @ [value])) prefs
                 else prefs
             | Some (PStr s) \<Rightarrow> AList.update category (PStr value) prefs)
      in save_user_data (self\<lparr>user_data := (user_data self)\<lparr>preferences := prefs'\<rparr>\<rparr>))"

text \<open>
  \<^verbatim>\<open>if rating:\<close> is false for \<^verbatim>\<open>None\<close> and for \<open>0\<close>. The timestamp of the record is
  \<^verbatim>\<open>datetime.now().isoformat()\<close>, a parameter here.
\<close>

definition record_interaction ::
  "engine \<Rightarrow> string \<Rightarrow> string \<Rightarrow> int option \<Rightarrow> string \<Rightarrow> engine" where
  "record_interaction self bid act rating_opt now_iso =
     (let interaction =
            \<lparr> book_id = bid, action = act, timestamp = now_iso, rating = rating_opt \<rparr>;
          ud = user_data self;
          ud = ud\<lparr>history := history ud @ [interaction]\<rparr>;
          ud = (case rating_opt of
                  None \<Rightarrow> ud
                | Some r \<Rightarrow> if r \<noteq> 0 then ud\<lparr>ratings := AList.update bid r (ratings ud)\<rparr> else ud);
          ud = (if act = ''bookmarked''
                then (if bid \<notin> set (bookmarks ud) then ud\<lparr>bookmarks := bookmarks ud @ [bid]\<rparr>
                      else ud)
                else ud)
      in save_user_data (self\<lparr>user_data := ud\<rparr>))"

section \<open>Relevance score\<close>

definition calculate_relevance_score :: "engine \<Rightarrow> book \<Rightarrow> int" where
  "calculate_relevance_score self book =
     (let score = 0;
          prefs = preferences (user_data self);
          book_genres = get_or (genres book) [];
          user_genres = dict_get prefs ''genres'' (PList []);
          genre_matches = set book_genres \<inter> py_set user_genres;
          score = score + int (card genre_matches) * 3;
          book_author = get_or (author book) '''';
          score = (if py_in book_author (dict_get prefs ''authors'' (PList []))
                   then score + 4 else score);
          book_themes = get_or (themes book) [];
          user_themes = dict_get prefs ''themes'' (PList []);
          theme_matches = set book_themes \<inter> py_set user_themes;
          score = score + int (card theme_matches) * 2;
          score = (if map_option PStr (reading_level book) = map_of prefs ''reading_level''
                   then score + 2 else score);
          available_formats = get_or (formats book) [];
          preferred_formats = dict_get prefs ''format_preference'' (PList []);
          format_matches = set available_formats \<inter> py_set preferred_formats;
          score = score + int (card format_matches);
          avg_rating = get_or (average_rating book) 0;
          score = (if avg_rating \<ge> 45 / 10 then score + 5
                   else if avg_rating \<ge> 4 then score + 3
                   else score)
      in score)"

section \<open>Recommendations\<close>

text \<open>
  The fallback of \<^verbatim>\<open>get_recommendations\<close>: the catalog sorted by the pair
  \<^verbatim>\<open>(average_rating, popularity)\<close>, highest first.
\<close>

definition get_default_recommendations :: "engine \<Rightarrow> int \<Rightarrow> book list" where
  "get_default_recommendations self n =
     (let books = catalog self
      in if books = [] then []
         else let sorted_books =
                    sorted_reverse
                      (\<lambda>x. (get_or (average_rating x) 0, get_or (popularity x) 0)) books
              in py_slice_to sorted_books n)"

text \<open>
  The loop appends one pair \<^verbatim>\<open>(book, score)\<close> per book; the pairs are sorted on the score,
  highest first; the comprehension keeps the books whose \<^verbatim>\<open>book.get("id")\<close> is not the
  \<^verbatim>\<open>book_id\<close> of any interaction (a book with no id is kept: \<^verbatim>\<open>None\<close> is no book id).
\<close>

definition get_recommendations :: "engine \<Rightarrow> int \<Rightarrow> book list" where
  "get_recommendations self n =
     (if catalog self = [] then get_default_recommendations self n
      else
        let book_scores =
              foldl (\<lambda>book_scores book.
                       book_scores @ [(book, calculate_relevance_score self book)])
                [] (catalog self);
            book_scores = sorted_reverse snd book_scores;
            read_books = set (map book_id (history (user_data self)));
            recommendations =
              py_slice_to
                (map fst
                   (filter (\<lambda>(book, score).
                              case ident book of None \<Rightarrow> True | Some i \<Rightarrow> i \<notin> read_books)
                      book_scores))
                n
        in recommendations)"

section \<open>The feed\<close>

text \<open>\<^verbatim>\<open>_get_book_by_id\<close>: the first book of the catalog with that id.\<close>

definition get_book_by_id :: "engine \<Rightarrow> string \<Rightarrow> book option" where
  "get_book_by_id self bid = find (\<lambda>book. ident book = Some bid) (catalog self)"

text \<open>
  \<^verbatim>\<open>_get_continue_reading\<close>: one pass over the history. A book that
  \<^verbatim>\<open>_get_book_by_id\<close> returns has an id, so it is a non-empty dict and \<^verbatim>\<open>if book:\<close> holds.
\<close>

definition get_continue_reading :: "engine \<Rightarrow> book list" where
  "get_continue_reading self =
     (let hist = history (user_data self);
          in_progress =
            foldl (\<lambda>in_progress interaction.
                     if action interaction = ''started''
                     then (let bid = book_id interaction;
                               completed =
                                 list_ex (\<lambda>h. book_id h = bid \<and> action h = ''completed'') hist
                           in if \<not> completed
                              then (case get_book_by_id self bid of
                                      None \<Rightarrow> in_progress
                                    | Some book \<Rightarrow> in_progress @ [book])
                              else in_progress)
                     else in_progress)
              [] hist
      in py_slice_to in_progress 3)"

text \<open>
  \<^verbatim>\<open>_get_new_in_preferred_genres\<close>. Two things come from Python's \<^verbatim>\<open>datetime\<close> and are
  parameters: \<open>now\<close>, the naive local time \<^verbatim>\<open>datetime.now()\<close> in microseconds from some
  fixed instant, and \<open>fromisoformat\<close>, which gives the instant a string denotes, or
  \<^const>\<open>None\<close> when the \<^verbatim>\<open>try\<close> block raises (the string does not parse, or it carries
  a UTC offset, and subtracting it from the naive \<open>now\<close> is a TypeError). The bare
  \<^verbatim>\<open>except: pass\<close> drops the book in both cases. \<^verbatim>\<open>timedelta.days\<close> is the difference
  divided by one day, rounded down (\<^verbatim>\<open>timedelta(seconds=-1).days == -1\<close>), which is
  \<open>div\<close> on integers.
\<close>

definition microseconds_per_day :: int where
  "microseconds_per_day = 86400000000"

definition timedelta_days :: "int \<Rightarrow> int" where
  "timedelta_days delta = delta div microseconds_per_day"

definition get_new_in_preferred_genres ::
  "(string \<Rightarrow> int option) \<Rightarrow> int \<Rightarrow> engine \<Rightarrow> book list" where
  "get_new_in_preferred_genres fromisoformat now self =
     (let preferred_genres = dict_get (preferences (user_data self)) ''genres'' (PList []);
          new_books =
            foldl (\<lambda>new_books book.
                     let book_genres = get_or (genres book) []
                     in if list_ex (\<lambda>g. py_in g preferred_genres) book_genres
                        then (let added = get_or (added_date book) ''''
                              in if added \<noteq> ''''
                                 then (case fromisoformat added of
                                         None \<Rightarrow> new_books
                                       | Some date \<Rightarrow>
                                           if timedelta_days (now - date) \<le> 30
                                           then new_books @ [book]
                                           else new_books)
                                 else new_books)
                        else new_books)
              [] (catalog self)
      in py_slice_to new_books 5)"

definition get_trending :: "engine \<Rightarrow> book list" where
  "get_trending self =
     (let books = catalog self;
          trending = sorted_reverse (\<lambda>x. get_or (recent_views x) 0) books
      in py_slice_to trending 5)"

record feed =
  recommendations :: "book list"
  continue_reading :: "book list"
  new_in_genres :: "book list"
  trending :: "book list"
  generated_at :: string

definition generate_personalized_feed ::
  "(string \<Rightarrow> int option) \<Rightarrow> int \<Rightarrow> string \<Rightarrow> engine \<Rightarrow> feed" where
  "generate_personalized_feed fromisoformat now now_iso self =
     \<lparr> recommendations = get_recommendations self 5,
       continue_reading = get_continue_reading self,
       new_in_genres = get_new_in_preferred_genres fromisoformat now self,
       trending = get_trending self,
       generated_at = now_iso \<rparr>"

section \<open>Preference analysis\<close>

text \<open>
  The report of \<^verbatim>\<open>analyze_preferences\<close> is one of two dicts: the message with its
  recommendations, or the five statistics (top_genres, reading_patterns,
  average_rating_given, total_books_interacted, suggestions).
\<close>

datatype analysis =
  Not_Enough_Data string "string list"
| Analysis "string list" "(string, nat) dict" rat nat "string list"

text \<open>\<^verbatim>\<open>counts[k] += 1\<close> on a \<^verbatim>\<open>defaultdict(int)\<close>.\<close>

definition count_up :: "(string, nat) dict \<Rightarrow> string \<Rightarrow> (string, nat) dict" where
  "count_up counts k = AList.update k (dict_get counts k 0 + 1) counts"

definition generate_preference_suggestions ::
  "engine \<Rightarrow> (string \<times> nat) list \<Rightarrow> string list" where
  "generate_preference_suggestions self top_genres =
     (let suggestions = [];
          suggestions =
            (case top_genres of
               [] \<Rightarrow> suggestions @ [''Explore different genres to get better recommendations'']
             | (g, c) # rest \<Rightarrow>
                 if length top_genres < 3
                 then suggestions @
                        [''You seem to like '' @ g @ '' - try exploring similar genres'']
                 else suggestions);
          suggestions =
            (if length (ratings (user_data self)) < 5
             then suggestions @ [''Rate more books to improve recommendations'']
             else suggestions)
      in suggestions)"

text \<open>
  The mean of the ratings is a float that Python rounds with \<^verbatim>\<open>round(avg_rating, 2)\<close>;
  the rounding is the parameter \<open>round2\<close>, applied to the exact mean.
\<close>

definition analyze_preferences :: "(rat \<Rightarrow> rat) \<Rightarrow> engine \<Rightarrow> analysis" where
  "analyze_preferences round2 self =
     (let hist = history (user_data self)
      in if hist = []
         then Not_Enough_Data ''Not enough data to analyze preferences''
                [''Start reading books to get personalized recommendations'']
         else
           let genre_counts =
                 foldl (\<lambda>genre_counts interaction.
                          case get_book_by_id self (book_id interaction) of
                            None \<Rightarrow> genre_counts
                          | Some book \<Rightarrow> foldl count_up genre_counts (get_or (genres book) []))
                   [] hist;
               top_genres = py_slice_to (sorted_reverse snd genre_counts) 3;
               actions =
                 foldl (\<lambda>actions interaction. count_up actions (action interaction)) [] hist;
               rs = map snd (ratings (user_data self));
               avg_rating =
                 (if rs \<noteq> [] then of_int (sum_list rs) / of_nat (length rs) else 0)
           in Analysis (map fst top_genres) actions (round2 avg_rating)
                (card (set (map book_id hist)))
                (generate_preference_suggestions self top_genres))"

section \<open>Vocabulary of the properties\<close>

text \<open>
  \<^verbatim>\<open>__init__\<close> with the content of the two files (\<^const>\<open>None\<close>: the file does not exist).
\<close>

definition init_engine :: "profile option \<Rightarrow> book list option \<Rightarrow> string \<Rightarrow> engine" where
  "init_engine file catalog_file now_iso =
     \<lparr> user_data = load_user_data file now_iso,
       catalog = load_catalog catalog_file,
       user_file = file \<rparr>"

text \<open>The number of values that two lists have in common, each value counted once.\<close>

definition common :: "string list \<Rightarrow> string list \<Rightarrow> nat" where
  "common xs ys = length (filter (\<lambda>x. x \<in> set ys) (remdups xs))"

text \<open>The list a profile holds under a category; none when the category is absent.\<close>

definition pref_list :: "profile \<Rightarrow> string \<Rightarrow> string list" where
  "pref_list p k = (case map_of (preferences p) k of Some (PList xs) \<Rightarrow> xs | _ \<Rightarrow> [])"

text \<open>
  The shape the data model gives the list-valued categories: a list, when the category is
  there at all.
\<close>

definition list_or_absent :: "profile \<Rightarrow> string \<Rightarrow> bool" where
  "list_or_absent p k =
     (case map_of (preferences p) k of Some (PStr s) \<Rightarrow> False | _ \<Rightarrow> True)"

definition list_shaped :: "profile \<Rightarrow> bool" where
  "list_shaped p =
     list_all (list_or_absent p) [''genres'', ''authors'', ''themes'', ''format_preference'']"

definition rating_bonus :: "rat \<Rightarrow> int" where
  "rating_bonus r = (if r \<ge> 45 / 10 then 5 else if r \<ge> 4 then 3 else 0)"

text \<open>The additive sum, from the six quantities that it weighs.\<close>

definition score_terms :: "nat \<Rightarrow> bool \<Rightarrow> nat \<Rightarrow> bool \<Rightarrow> nat \<Rightarrow> rat \<Rightarrow> int" where
  "score_terms genre_matches author_match theme_matches level_match format_matches avg_rating =
     3 * int genre_matches
     + (if author_match then 4 else 0)
     + 2 * int theme_matches
     + (if level_match then 2 else 0)
     + int format_matches
     + rating_bonus avg_rating"

text \<open>
  The additive sum in which a field that a book does not have adds nothing to the score.
\<close>

definition score_absent_zero :: "profile \<Rightarrow> book \<Rightarrow> int" where
  "score_absent_zero p b =
     3 * int (common (get_or (genres b) []) (pref_list p ''genres''))
     + (case author b of
          None \<Rightarrow> 0
        | Some a \<Rightarrow> if a \<in> set (pref_list p ''authors'') then 4 else 0)
     + 2 * int (common (get_or (themes b) []) (pref_list p ''themes''))
     + (case reading_level b of
          None \<Rightarrow> 0
        | Some r \<Rightarrow> if map_of (preferences p) ''reading_level'' = Some (PStr r) then 2 else 0)
     + int (common (get_or (formats b) []) (pref_list p ''format_preference''))
     + (case average_rating b of None \<Rightarrow> 0 | Some r \<Rightarrow> rating_bonus r)"

text \<open>
  The additive sum in which a field that a book does not have is read as its default: no
  genres, themes or formats, the empty string as the author, no reading level, the
  rating 0.
\<close>

definition score_sum :: "profile \<Rightarrow> book \<Rightarrow> int" where
  "score_sum p b =
     3 * int (common (get_or (genres b) []) (pref_list p ''genres''))
     + (if get_or (author b) '''' \<in> set (pref_list p ''authors'') then 4 else 0)
     + 2 * int (common (get_or (themes b) []) (pref_list p ''themes''))
     + (if map_option PStr (reading_level b) = map_of (preferences p) ''reading_level''
        then 2 else 0)
     + int (common (get_or (formats b) []) (pref_list p ''format_preference''))
     + rating_bonus (get_or (average_rating b) 0)"

text \<open>
  Every list-valued preference among the four list categories, and the bookmarks, hold
  each value at most once.
\<close>

definition distinct_pref :: "profile \<Rightarrow> string \<Rightarrow> bool" where
  "distinct_pref p k =
     (case map_of (preferences p) k of Some (PList xs) \<Rightarrow> distinct xs | _ \<Rightarrow> True)"

definition no_duplicates :: "profile \<Rightarrow> bool" where
  "no_duplicates p =
     (list_all (distinct_pref p) [''genres'', ''authors'', ''themes'', ''format_preference'']
      \<and> distinct (bookmarks p))"

section \<open>Example documents\<close>

definition no_fields :: book where
  "no_fields =
     \<lparr> ident = None, title = None, author = None, genres = None, themes = None,
       reading_level = None, formats = None, average_rating = None, popularity = None,
       recent_views = None, added_date = None \<rparr>"

text \<open>The two books of the specification's scenario.\<close>

definition book_A :: book where
  "book_A = no_fields\<lparr> ident := Some ''A'', genres := Some [''scifi''], author := Some ''X'',
     average_rating := Some (46 / 10) \<rparr>"

definition book_B :: book where
  "book_B = no_fields\<lparr> ident := Some ''B'', genres := Some [], author := Some ''X'',
     average_rating := Some 3 \<rparr>"

text \<open>A new user, with no stored document, who then likes science fiction.\<close>

definition new_user :: "book list \<Rightarrow> engine" where
  "new_user books = init_engine None (Some books) ''2026-01-01T00:00:00''"

definition scifi_reader :: "book list \<Rightarrow> engine" where
  "scifi_reader books = add_preference (new_user books) ''genres'' ''scifi''"

section \<open>Vocabulary of the recommendations\<close>

text \<open>
  A book passes the filter of the recommendations when its id is the \<^verbatim>\<open>book_id\<close> of no
  interaction of the history; a book with no id passes.
\<close>

definition not_interacted :: "profile \<Rightarrow> book \<Rightarrow> bool" where
  "not_interacted p b =
     (case ident b of None \<Rightarrow> True | Some i \<Rightarrow> i \<notin> set (map book_id (history p)))"

text \<open>
  Sorting on an integer key, highest first, stable: \<^const>\<open>sort_key\<close> is the stable
  insertion sort, here on the negated key.
\<close>

definition stable_sort_descending :: "('a \<Rightarrow> int) \<Rightarrow> 'a list \<Rightarrow> 'a list" where
  "stable_sort_descending f xs = sort_key (\<lambda>x. - f x) xs"

text \<open>
  The recommendations in the words of the specification: score every book of the catalog,
  sort descending on the score (stable), remove the books whose id is in the history, take
  the first \<open>n\<close>.
\<close>

definition recommend_spec :: "engine \<Rightarrow> int \<Rightarrow> book list" where
  "recommend_spec self n =
     take (nat n)
       (filter (not_interacted (user_data self))
          (stable_sort_descending (calculate_relevance_score self) (catalog self)))"

text \<open>The science-fiction reader after an interaction with book B.\<close>

definition scifi_reader_viewed_B :: "book list \<Rightarrow> engine" where
  "scifi_reader_viewed_B books =
     record_interaction (scifi_reader books) ''B'' ''viewed'' None ''2026-01-02T00:00:00''"

section \<open>Vocabulary of the feed\<close>

text \<open>
  The ids that the history has started and nowhere completed: one per \<^verbatim>\<open>started\<close>
  interaction, in the order of the history.
\<close>

definition in_progress_ids :: "profile \<Rightarrow> string list" where
  "in_progress_ids p =
     map book_id
       (filter (\<lambda>h. action h = ''started''
                  \<and> \<not> list_ex (\<lambda>h'. book_id h' = book_id h \<and> action h' = ''completed'')
                        (history p))
          (history p))"

text \<open>Each value once, where it occurs first.\<close>

definition first_occurrences :: "'a list \<Rightarrow> 'a list" where
  "first_occurrences xs = rev (remdups (rev xs))"

text \<open>
  The continue_reading part in the words of the specification: the catalog entries of the
  ids in progress, deduplicated, in first-encountered order, ids with no entry omitted,
  truncated to 3.
\<close>

definition continue_reading_spec :: "engine \<Rightarrow> book list" where
  "continue_reading_spec self =
     take 3 (List.map_filter (get_book_by_id self)
               (first_occurrences (in_progress_ids (user_data self))))"

text \<open>
  A new user who starts A, starts and completes B, and starts Z, a book that the catalog
  does not have; and a new user who starts A twice.
\<close>

definition reader_in_progress :: "book list \<Rightarrow> engine" where
  "reader_in_progress books =
     record_interaction
       (record_interaction
          (record_interaction
             (record_interaction (new_user books) ''A'' ''started'' None ''2026-01-02T00:00:00'')
             ''B'' ''started'' None ''2026-01-03T00:00:00'')
          ''B'' ''completed'' None ''2026-01-04T00:00:00'')
       ''Z'' ''started'' None ''2026-01-05T00:00:00''"

definition started_twice :: "book list \<Rightarrow> engine" where
  "started_twice books =
     record_interaction
       (record_interaction (new_user books) ''A'' ''started'' None ''2026-01-02T00:00:00'')
       ''A'' ''started'' None ''2026-01-03T00:00:00''"

text \<open>A book shares a genre with the profile's genres preference.\<close>

definition shares_genre :: "profile \<Rightarrow> book \<Rightarrow> bool" where
  "shares_genre p b =
     list_ex (\<lambda>g. g \<in> set (pref_list p ''genres'')) (get_or (genres b) [])"

text \<open>
  A book has an \<^verbatim>\<open>added_date\<close> that is there, is not empty, parses, and denotes an
  instant that passes the test \<open>recent\<close>.
\<close>

definition added_within :: "(string \<Rightarrow> int option) \<Rightarrow> (int \<Rightarrow> bool) \<Rightarrow> book \<Rightarrow> bool" where
  "added_within fromisoformat recent b =
     (case added_date b of
        None \<Rightarrow> False
      | Some s \<Rightarrow>
          s \<noteq> '''' \<and> (case fromisoformat s of None \<Rightarrow> False | Some date \<Rightarrow> recent date))"

text \<open>An instant of the last 30 days: not after \<open>now\<close> and at most 30 days before it.\<close>

definition within_last_30_days :: "int \<Rightarrow> int \<Rightarrow> bool" where
  "within_last_30_days now date =
     (0 \<le> now - date \<and> now - date \<le> 30 * microseconds_per_day)"

text \<open>
  The new_in_genres part in the words of the specification: the books of the catalog that
  share a genre with the profile and whose \<^verbatim>\<open>added_date\<close> parses as an instant of the
  last 30 days, truncated to 5.
\<close>

definition new_in_genres_spec :: "(string \<Rightarrow> int option) \<Rightarrow> int \<Rightarrow> engine \<Rightarrow> book list" where
  "new_in_genres_spec fromisoformat now self =
     take 5
       (filter (\<lambda>b. shares_genre (user_data self) b
                  \<and> added_within fromisoformat (within_last_30_days now) b)
          (catalog self))"

text \<open>
  A clock for the examples: \<open>now\<close> is \<open>0\<close>, the instant 2026-01-01T00:00:00, and three
  strings parse, as instants seven days before, forty days before and one year after it.
\<close>

definition example_fromisoformat :: "string \<Rightarrow> int option" where
  "example_fromisoformat s =
     (if s = ''2025-12-25T00:00:00'' then Some (- 7 * microseconds_per_day)
      else if s = ''2025-11-22T00:00:00'' then Some (- 40 * microseconds_per_day)
      else if s = ''2027-01-01T00:00:00'' then Some (365 * microseconds_per_day)
      else None)"

definition book_recent :: book where
  "book_recent = no_fields\<lparr> ident := Some ''R'', genres := Some [''scifi''],
     added_date := Some ''2025-12-25T00:00:00'' \<rparr>"

definition book_old :: book where
  "book_old = no_fields\<lparr> ident := Some ''O'', genres := Some [''scifi''],
     added_date := Some ''2025-11-22T00:00:00'' \<rparr>"

definition book_unparseable :: book where
  "book_unparseable = no_fields\<lparr> ident := Some ''U'', genres := Some [''scifi''],
     added_date := Some ''last week'' \<rparr>"

definition book_undated :: book where
  "book_undated = no_fields\<lparr> ident := Some ''N'', genres := Some [''scifi''] \<rparr>"

definition book_future :: book where
  "book_future = no_fields\<lparr> ident := Some ''F'', genres := Some [''scifi''],
     added_date := Some ''2027-01-01T00:00:00'' \<rparr>"

section \<open>Evaluating the examples\<close>

lemmas engine_defs =
  init_engine_def load_user_data_def load_catalog_def default_user_data_def
  save_user_data_def add_preference_def record_interaction_def new_user_def
  scifi_reader_def

lemmas book_defs = no_fields_def book_A_def book_B_def

lemma new_user_eval:
  "new_user books =
     \<lparr> user_data = default_user_data ''2026-01-01T00:00:00'', catalog = books,
       user_file = None \<rparr>"
  by (simp add: new_user_def init_engine_def load_user_data_def load_catalog_def)

lemma scifi_reader_prefs:
  "preferences (user_data (scifi_reader books)) =
     [(''genres'', PList [''scifi'']),
      (''authors'', PList []),
      (''themes'', PList []),
      (''reading_level'', PStr ''general''),
      (''format_preference'', PList [''digital'', ''audio''])]"
  by (simp add: scifi_reader_def new_user_eval add_preference_def default_user_data_def
      save_user_data_def Let_def)

lemma scifi_reader_history: "history (user_data (scifi_reader books)) = []"
  by (simp add: scifi_reader_def new_user_eval add_preference_def default_user_data_def
      save_user_data_def Let_def)

lemma scifi_reader_catalog: "catalog (scifi_reader books) = books"
  by (simp add: scifi_reader_def new_user_eval add_preference_def save_user_data_def Let_def)

section \<open>The relevance score\<close>

lemma card_common: "card (set xs \<inter> set ys) = common xs ys"
proof -
  let ?zs = "filter (\<lambda>x. x \<in> set ys) (remdups xs)"
  have "set ?zs = set xs \<inter> set ys" by auto
  moreover have "distinct ?zs" by simp
  ultimately show ?thesis
    unfolding common_def by (metis distinct_card)
qed

lemma py_set_pref:
  "list_or_absent p k \<Longrightarrow> py_set (dict_get (preferences p) k (PList [])) = set (pref_list p k)"
  by (auto simp: list_or_absent_def dict_get_def pref_list_def
      split: option.splits pref_value.splits)

lemma py_in_pref:
  "list_or_absent p k \<Longrightarrow>
   py_in x (dict_get (preferences p) k (PList [])) = (x \<in> set (pref_list p k))"
  by (auto simp: list_or_absent_def dict_get_def pref_list_def
      split: option.splits pref_value.splits)

lemma score_eq_score_sum:
  assumes "list_shaped (user_data self)"
  shows "calculate_relevance_score self b = score_sum (user_data self) b"
  using assms
  by (simp add: list_shaped_def calculate_relevance_score_def score_sum_def Let_def
      py_set_pref py_in_pref card_common rating_bonus_def)

lemma rating_bonus_0: "rating_bonus 0 = 0"
  by (simp add: rating_bonus_def)

lemma score_sum_eq_absent_zero:
  assumes "author b \<noteq> None \<or> '''' \<notin> set (pref_list p ''authors'')"
    and "reading_level b \<noteq> None \<or> map_of (preferences p) ''reading_level'' \<noteq> None"
  shows "score_sum p b = score_absent_zero p b"
proof -
  have a: "(if get_or (author b) '''' \<in> set (pref_list p ''authors'') then 4 else 0)
      = (case author b of None \<Rightarrow> 0
         | Some a \<Rightarrow> if a \<in> set (pref_list p ''authors'') then 4 else (0::int))"
    using assms(1) by (cases "author b") (simp_all add: get_or_def)
  have r: "(if map_option PStr (reading_level b) = map_of (preferences p) ''reading_level''
            then 2 else 0)
      = (case reading_level b of None \<Rightarrow> 0
         | Some r \<Rightarrow>
             if map_of (preferences p) ''reading_level'' = Some (PStr r) then 2 else (0::int))"
    using assms(2) by (cases "reading_level b") auto
  have v: "rating_bonus (get_or (average_rating b) 0)
      = (case average_rating b of None \<Rightarrow> 0 | Some r \<Rightarrow> rating_bonus r)"
    by (cases "average_rating b") (simp_all add: get_or_def rating_bonus_0)
  show ?thesis
    unfolding score_sum_def score_absent_zero_def a r v ..
qed

text \<open>
  C1, as the code has it. For every profile whose genres, authors, themes and
  format_preference are lists (or absent) and every book, the score is the additive sum:
  3 per genre that the book and the profile have in common, 4 if the book's author is a
  preferred author, 2 per common theme, 2 if the reading levels are equal, 1 per common
  format, and 5 for an average rating of at least 4.5, else 3 for one of at least 4.0.
  A field that the book does not have is read as its default (no genres, themes or
  formats, the empty string as author, no reading level, rating 0) and never fails. It
  adds nothing to the score unless the empty string is a preferred author (an absent
  author then scores 4) or the profile has no reading level either (an absent reading
  level then scores 2).
\<close>

theorem score_additive:
  assumes "list_shaped (user_data self)"
  shows "calculate_relevance_score self b = score_sum (user_data self) b
    \<and> ((author b \<noteq> None \<or> '''' \<notin> set (pref_list (user_data self) ''authors''))
       \<and> (reading_level b \<noteq> None
          \<or> map_of (preferences (user_data self)) ''reading_level'' \<noteq> None)
       \<longrightarrow> calculate_relevance_score self b = score_absent_zero (user_data self) b)"
  using assms score_eq_score_sum [of self b] score_sum_eq_absent_zero [of b "user_data self"]
  by simp

lemma scifi_reader_shaped: "list_shaped (user_data (scifi_reader books))"
  by (simp add: list_shaped_def list_or_absent_def scifi_reader_prefs)

lemma score_sum_scifi_A: "score_sum (user_data (scifi_reader books)) book_A = 8"
  by (simp add: score_sum_def scifi_reader_prefs pref_list_def common_def get_or_def
      rating_bonus_def book_defs)

theorem score_additive_witness:
  "list_shaped (user_data (scifi_reader []))
   \<and> calculate_relevance_score (scifi_reader []) book_A = 8
   \<and> score_absent_zero (user_data (scifi_reader [])) book_A = 8"
proof -
  have s: "list_shaped (user_data (scifi_reader []))" by (rule scifi_reader_shaped)
  have a: "author book_A \<noteq> None" by (simp add: book_defs)
  have r: "reading_level book_A \<noteq> None
      \<or> map_of (preferences (user_data (scifi_reader []))) ''reading_level'' \<noteq> None"
    by (simp add: scifi_reader_prefs)
  from score_additive [OF s, of book_A]
  have 1: "calculate_relevance_score (scifi_reader []) book_A
      = score_sum (user_data (scifi_reader [])) book_A"
    and 2: "(author book_A \<noteq> None
          \<or> [] \<notin> set (pref_list (user_data (scifi_reader [])) ''authors''))
       \<and> (reading_level book_A \<noteq> None
          \<or> map_of (preferences (user_data (scifi_reader []))) ''reading_level'' \<noteq> None)
       \<longrightarrow> calculate_relevance_score (scifi_reader []) book_A
         = score_absent_zero (user_data (scifi_reader [])) book_A"
    by blast+
  from 2 a r have "calculate_relevance_score (scifi_reader []) book_A
      = score_absent_zero (user_data (scifi_reader [])) book_A"
    by blast
  with 1 s score_sum_scifi_A [of "[]"] show ?thesis by simp
qed

text \<open>
  The claim as it is written fails where a book has no author and the empty string is a
  preferred author: the absent field adds 4.
\<close>

theorem score_absent_author_counterexample:
  "calculate_relevance_score (add_preference (new_user []) ''authors'' '''') no_fields = 4
   \<and> score_absent_zero (user_data (add_preference (new_user []) ''authors'' '''')) no_fields = 0"
  by (simp add: calculate_relevance_score_def score_absent_zero_def new_user_eval
      add_preference_def default_user_data_def save_user_data_def no_fields_def
      dict_get_def get_or_def pref_list_def common_def Let_def)

section \<open>Adding preferences and recording interactions\<close>

lemma user_data_add_preference:
  "user_data (add_preference self category value) =
     (user_data self)\<lparr>preferences :=
        (case map_of (preferences (user_data self)) category of
           None \<Rightarrow> preferences (user_data self)
         | Some (PList xs) \<Rightarrow>
             if value \<notin> set xs
             then AList.update category (PList (xs @ [value])) (preferences (user_data self))
             else preferences (user_data self)
         | Some (PStr s) \<Rightarrow>
             AList.update category (PStr value) (preferences (user_data self)))\<rparr>"
  by (simp add: add_preference_def save_user_data_def Let_def)

lemma user_data_record_interaction:
  "user_data (record_interaction self bid act r now_iso) =
     (user_data self)
       \<lparr>history := history (user_data self)
          @ [\<lparr> book_id = bid, action = act, timestamp = now_iso, rating = r \<rparr>],
        ratings :=
          (case r of
             None \<Rightarrow> ratings (user_data self)
           | Some x \<Rightarrow>
               if x \<noteq> 0 then AList.update bid x (ratings (user_data self))
               else ratings (user_data self)),
        bookmarks :=
          (if act = ''bookmarked'' \<and> bid \<notin> set (bookmarks (user_data self))
           then bookmarks (user_data self) @ [bid]
           else bookmarks (user_data self))\<rparr>"
  by (cases r) (simp_all add: record_interaction_def save_user_data_def Let_def)

text \<open>
  C5. For every profile and every item id, recording two interactions with that item id
  that carry different ratings between 1 and 5 leaves \<^verbatim>\<open>ratings[item_id]\<close> equal to the
  rating recorded last, while the history has both records, in the order of insertion,
  after the records it had.
\<close>

theorem ratings_last_write_wins:
  assumes "1 \<le> r1" and "r1 \<le> 5" and "1 \<le> r2" and "r2 \<le> 5" and "r1 \<noteq> r2"
  shows "map_of (ratings (user_data (record_interaction self bid a1 (Some r1) t1))) bid
       = Some r1
    \<and> map_of (ratings (user_data
          (record_interaction (record_interaction self bid a1 (Some r1) t1)
             bid a2 (Some r2) t2))) bid
       = Some r2
    \<and> history (user_data
          (record_interaction (record_interaction self bid a1 (Some r1) t1)
             bid a2 (Some r2) t2))
       = history (user_data self)
         @ [\<lparr> book_id = bid, action = a1, timestamp = t1, rating = Some r1 \<rparr>,
            \<lparr> book_id = bid, action = a2, timestamp = t2, rating = Some r2 \<rparr>]"
  using assms by (simp add: user_data_record_interaction update_conv')

theorem ratings_last_write_wins_witness:
  "map_of (ratings (user_data
      (record_interaction (record_interaction (new_user []) ''b1'' ''rated'' (Some 2) ''t1'')
         ''b1'' ''rated'' (Some 5) ''t2''))) ''b1''
     = Some 5
   \<and> history (user_data
      (record_interaction (record_interaction (new_user []) ''b1'' ''rated'' (Some 2) ''t1'')
         ''b1'' ''rated'' (Some 5) ''t2''))
     = [\<lparr> book_id = ''b1'', action = ''rated'', timestamp = ''t1'', rating = Some 2 \<rparr>,
        \<lparr> book_id = ''b1'', action = ''rated'', timestamp = ''t2'', rating = Some 5 \<rparr>]"
  using ratings_last_write_wins [of 2 5 "new_user []" "''b1''" "''rated''" "''t1''"
      "''rated''" "''t2''"]
  by (simp add: new_user_eval default_user_data_def)


lemma distinct_pref_add_preference:
  assumes "distinct_pref (user_data self) k"
  shows "distinct_pref (user_data (add_preference self category value)) k"
  using assms
  by (auto simp: distinct_pref_def user_data_add_preference update_conv'
      split: option.splits pref_value.splits if_splits)

lemma no_duplicates_add_preference:
  assumes "no_duplicates (user_data self)"
  shows "no_duplicates (user_data (add_preference self category value))"
proof -
  have "bookmarks (user_data (add_preference self category value)) = bookmarks (user_data self)"
    by (simp add: user_data_add_preference)
  with assms show ?thesis
    by (simp add: no_duplicates_def distinct_pref_add_preference)
qed

lemma no_duplicates_record_interaction:
  assumes "no_duplicates (user_data self)"
  shows "no_duplicates (user_data (record_interaction self bid act r now_iso))"
  using assms
  by (simp add: no_duplicates_def distinct_pref_def user_data_record_interaction)

lemma no_duplicates_default: "no_duplicates (default_user_data now_iso)"
  by (simp add: no_duplicates_def distinct_pref_def default_user_data_def)

lemma add_preference_twice:
  "add_preference (add_preference self category value) category value
     = add_preference self category value"
proof (cases "map_of (preferences (user_data self)) category")
  case None
  then show ?thesis by (simp add: add_preference_def save_user_data_def Let_def)
next
  case (Some v)
  then show ?thesis
    by (cases v) (simp_all add: add_preference_def save_user_data_def Let_def update_conv')
qed

lemma genres_after_add_preference:
  assumes "map_of (preferences (user_data self)) ''genres'' = Some (PList gs)"
  shows "pref_list (user_data (add_preference self ''genres'' g)) ''genres''
     = (if g \<in> set gs then gs else gs @ [g])"
  using assms by (simp add: pref_list_def user_data_add_preference update_conv')

lemma count_list_distinct: "distinct xs \<Longrightarrow> count_list xs x = (if x \<in> set xs then 1 else 0)"
  by (induction xs) auto

text \<open>
  C6. The predicate "each of the list-valued preferences genres, authors, themes and
  format_preference, and the bookmarks, holds each value at most once" is true of a
  freshly default-initialized profile and is kept by every \<^verbatim>\<open>add_preference\<close> and every
  \<^verbatim>\<open>record_interaction\<close>. \<^verbatim>\<open>add_preference\<close> is idempotent: adding the same genre a
  second time changes nothing, and the genres list then holds that genre exactly once.
\<close>

theorem no_duplicates_invariant:
  "no_duplicates (user_data (init_engine None books now_iso))
   \<and> (no_duplicates (user_data self)
      \<longrightarrow> no_duplicates (user_data (add_preference self category value)))
   \<and> (no_duplicates (user_data self)
      \<longrightarrow> no_duplicates (user_data (record_interaction self bid act r t)))
   \<and> add_preference (add_preference self ''genres'' g) ''genres'' g
       = add_preference self ''genres'' g
   \<and> (no_duplicates (user_data self)
       \<and> map_of (preferences (user_data self)) ''genres'' = Some (PList gs)
      \<longrightarrow> count_list
            (pref_list (user_data (add_preference (add_preference self ''genres'' g) ''genres'' g))
               ''genres'') g = 1)"
proof -
  have init: "no_duplicates (user_data (init_engine None books now_iso))"
    by (simp add: init_engine_def load_user_data_def no_duplicates_default)
  have once: "count_list
      (pref_list (user_data (add_preference (add_preference self ''genres'' g) ''genres'' g))
         ''genres'') g = 1"
    if inv: "no_duplicates (user_data self)"
      and gs: "map_of (preferences (user_data self)) ''genres'' = Some (PList gs)"
  proof -
    from inv gs have "distinct gs"
      by (simp add: no_duplicates_def distinct_pref_def)
    then have "count_list (if g \<in> set gs then gs else gs @ [g]) g = 1"
      by (simp add: count_list_distinct)
    then show ?thesis
      by (simp only: add_preference_twice genres_after_add_preference [OF gs])
  qed
  from init once show ?thesis
    by (simp add: no_duplicates_add_preference no_duplicates_record_interaction
        add_preference_twice)
qed

theorem no_duplicates_invariant_witness:
  "no_duplicates (user_data (new_user []))
   \<and> no_duplicates (user_data (add_preference (new_user []) ''genres'' ''scifi''))
   \<and> no_duplicates
       (user_data (record_interaction (new_user []) ''b1'' ''bookmarked'' None ''t1''))
   \<and> add_preference (add_preference (new_user []) ''genres'' ''scifi'') ''genres'' ''scifi''
       = add_preference (new_user []) ''genres'' ''scifi''
   \<and> count_list
       (pref_list
          (user_data (add_preference (add_preference (new_user []) ''genres'' ''scifi'')
             ''genres'' ''scifi'')) ''genres'') ''scifi'' = 1"
proof -
  have n: "no_duplicates (user_data (new_user []))"
    by (simp add: new_user_eval no_duplicates_default)
  have g: "map_of (preferences (user_data (new_user []))) ''genres'' = Some (PList [])"
    by (simp add: new_user_eval default_user_data_def)
  note t = no_duplicates_invariant
    [of "Some []" "''2026-01-01T00:00:00''" "new_user []" "''genres''" "''scifi''"
      "''b1''" "''bookmarked''" None "''t1''" "''scifi''" "[]"]
  from t n have 1: "no_duplicates (user_data (add_preference (new_user []) ''genres'' ''scifi''))"
    by (elim conjE) (erule mp)
  from t n have 2: "no_duplicates
       (user_data (record_interaction (new_user []) ''b1'' ''bookmarked'' None ''t1''))"
    by (elim conjE) (erule (1) mp)
  from t have 3:
    "add_preference (add_preference (new_user []) ''genres'' ''scifi'') ''genres'' ''scifi''
       = add_preference (new_user []) ''genres'' ''scifi''"
    by (elim conjE)
  from t n g have 4: "count_list
       (pref_list
          (user_data (add_preference (add_preference (new_user []) ''genres'' ''scifi'')
             ''genres'' ''scifi'')) ''genres'') ''scifi'' = 1"
    by (elim conjE) (erule mp, rule conjI)
  from n 1 2 3 4 show ?thesis by (intro conjI)
qed


section \<open>Monotonicity of the score\<close>

lemma score_unchanged_prefs:
  assumes "preferences (user_data self') = preferences (user_data self)"
  shows "calculate_relevance_score self' b = calculate_relevance_score self b"
  using assms by (simp add: calculate_relevance_score_def)

lemma score_by_terms:
  "calculate_relevance_score self b =
     score_terms
       (card (set (get_or (genres b) [])
          \<inter> py_set (dict_get (preferences (user_data self)) ''genres'' (PList []))))
       (py_in (get_or (author b) [])
          (dict_get (preferences (user_data self)) ''authors'' (PList [])))
       (card (set (get_or (themes b) [])
          \<inter> py_set (dict_get (preferences (user_data self)) ''themes'' (PList []))))
       (map_option PStr (reading_level b)
          = map_of (preferences (user_data self)) ''reading_level'')
       (card (set (get_or (formats b) [])
          \<inter> py_set (dict_get (preferences (user_data self)) ''format_preference''
               (PList []))))
       (get_or (average_rating b) 0)"
  by (simp add: calculate_relevance_score_def score_terms_def rating_bonus_def Let_def)

lemma card_inter_new_element:
  assumes "g \<notin> set gs"
  shows "card (B \<inter> set (gs @ [g])) = card (B \<inter> set gs) + (if g \<in> B then 1 else 0)"
proof (cases "g \<in> B")
  case True
  then have "B \<inter> set (gs @ [g]) = insert g (B \<inter> set gs)" by auto
  moreover have "g \<notin> B \<inter> set gs" using assms by simp
  moreover have "finite (B \<inter> set gs)" by simp
  ultimately show ?thesis using True by simp
next
  case False
  then have "B \<inter> set (gs @ [g]) = B \<inter> set gs" by auto
  with False show ?thesis by simp
qed

lemma score_terms_genre: "score_terms (n + k) a t r f v = score_terms n a t r f v + 3 * int k"
  by (simp add: score_terms_def)

lemma score_add_new_genre:
  assumes gs: "map_of (preferences (user_data self)) ''genres'' = Some (PList gs)"
    and new: "g \<notin> set gs"
  shows "calculate_relevance_score (add_preference self ''genres'' g) b
     = calculate_relevance_score self b
       + (if g \<in> set (get_or (genres b) []) then 3 else 0)"
proof -
  let ?p = "preferences (user_data self)"
  have p': "preferences (user_data (add_preference self ''genres'' g))
      = AList.update ''genres'' (PList (gs @ [g])) ?p"
    using gs new by (simp add: user_data_add_preference)
  have g': "dict_get (AList.update ''genres'' (PList (gs @ [g])) ?p) ''genres'' (PList [])
      = PList (gs @ [g])"
    by (simp add: dict_get_def update_conv')
  have g0: "dict_get ?p ''genres'' (PList []) = PList gs"
    using gs by (simp add: dict_get_def)
  have o1: "dict_get (AList.update ''genres'' (PList (gs @ [g])) ?p) ''authors'' d
      = dict_get ?p ''authors'' d" for d
    by (simp add: dict_get_def update_conv')
  have o2: "dict_get (AList.update ''genres'' (PList (gs @ [g])) ?p) ''themes'' d
      = dict_get ?p ''themes'' d" for d
    by (simp add: dict_get_def update_conv')
  have o3: "dict_get (AList.update ''genres'' (PList (gs @ [g])) ?p) ''format_preference'' d
      = dict_get ?p ''format_preference'' d" for d
    by (simp add: dict_get_def update_conv')
  have rl: "map_of (AList.update ''genres'' (PList (gs @ [g])) ?p) ''reading_level''
      = map_of ?p ''reading_level''"
    by (simp add: update_conv')
  have c: "card (set (get_or (genres b) []) \<inter> py_set (PList (gs @ [g])))
      = card (set (get_or (genres b) []) \<inter> py_set (PList gs))
        + (if g \<in> set (get_or (genres b) []) then 1 else 0)"
    using card_inter_new_element [OF new] by (simp only: py_set.simps)
  show ?thesis
    unfolding score_by_terms p' g' g0 rl o1 o2 o3 c score_terms_genre
    by simp
qed


text \<open>
  C9. The score is monotonic in the genres: for every profile whose genres preference is
  a list, every book and every genre \<open>g\<close> of the book, the score of the profile with \<open>g\<close>
  added to its genres is at least the score of the original profile, everything else
  being equal; it is 3 more when \<open>g\<close> was not yet a preferred genre and the same
  otherwise. The score is deterministic: equal inputs give equal scores.
\<close>

theorem score_monotone_in_genres:
  assumes "list_or_absent (user_data self) ''genres''"
    and "g \<in> set (get_or (genres b) [])"
  shows "calculate_relevance_score self b
       \<le> calculate_relevance_score (add_preference self ''genres'' g) b
    \<and> calculate_relevance_score (add_preference self ''genres'' g) b
       = calculate_relevance_score self b
         + (if map_of (preferences (user_data self)) ''genres'' = None
               \<or> g \<in> set (pref_list (user_data self) ''genres'')
            then 0 else 3)
    \<and> (self' = self \<and> b' = b
       \<longrightarrow> calculate_relevance_score self' b' = calculate_relevance_score self b)"
proof -
  have eq: "calculate_relevance_score (add_preference self ''genres'' g) b
       = calculate_relevance_score self b
         + (if map_of (preferences (user_data self)) ''genres'' = None
               \<or> g \<in> set (pref_list (user_data self) ''genres'')
            then 0 else 3)"
  proof (cases "map_of (preferences (user_data self)) ''genres''")
    case None
    then have "preferences (user_data (add_preference self ''genres'' g))
        = preferences (user_data self)"
      by (simp add: user_data_add_preference)
    then have "calculate_relevance_score (add_preference self ''genres'' g) b
        = calculate_relevance_score self b"
      by (rule score_unchanged_prefs)
    with None show ?thesis by simp
  next
    case (Some v)
    with assms(1) obtain gs where gs: "v = PList gs"
      by (cases v) (simp_all add: list_or_absent_def)
    show ?thesis
    proof (cases "g \<in> set gs")
      case True
      with Some gs have "preferences (user_data (add_preference self ''genres'' g))
          = preferences (user_data self)"
        by (simp add: user_data_add_preference)
      then have "calculate_relevance_score (add_preference self ''genres'' g) b
          = calculate_relevance_score self b"
        by (rule score_unchanged_prefs)
      with Some gs True show ?thesis
        by (simp add: pref_list_def)
    next
      case False
      with Some gs assms(2) show ?thesis
        by (simp add: score_add_new_genre pref_list_def)
    qed
  qed
  then show ?thesis by simp
qed


theorem score_monotone_in_genres_witness:
  "list_or_absent (user_data (new_user [])) ''genres''
   \<and> ''scifi'' \<in> set (get_or (genres book_A) [])
   \<and> calculate_relevance_score (new_user []) book_A = 5
   \<and> calculate_relevance_score (add_preference (new_user []) ''genres'' ''scifi'') book_A = 8"
proof -
  have l: "list_or_absent (user_data (new_user [])) ''genres''"
    by (simp add: list_or_absent_def new_user_eval default_user_data_def)
  have m: "''scifi'' \<in> set (get_or (genres book_A) [])"
    by (simp add: book_defs get_or_def)
  have s: "calculate_relevance_score (new_user []) book_A = 5"
    by (simp add: calculate_relevance_score_def new_user_eval default_user_data_def
        dict_get_def get_or_def book_defs Let_def)
  from score_monotone_in_genres [OF l m] l m s show ?thesis
    by (simp add: pref_list_def new_user_eval default_user_data_def)
qed


section \<open>Unknown preference categories\<close>

text \<open>
  C10. For every profile, \<^verbatim>\<open>add_preference\<close> with a category that is not a key of the
  profile's preferences leaves the whole document as it is: no preference is created,
  the history, ratings and bookmarks are untouched, and the unchanged document is what
  is saved. For a default-initialized profile these are the categories other than genres,
  authors, themes, reading_level and format_preference.
\<close>

theorem add_preference_unknown_category:
  assumes "map_of (preferences (user_data self)) category = None"
  shows "add_preference self category value = self\<lparr>user_file := Some (user_data self)\<rparr>
    \<and> user_data (add_preference self category value) = user_data self
    \<and> user_file (add_preference self category value) = Some (user_data self)
    \<and> (map_of (preferences (default_user_data now_iso)) c = None)
       = (c \<notin> set [''genres'', ''authors'', ''themes'', ''reading_level'',
                    ''format_preference''])"
  using assms
  by (simp add: add_preference_def save_user_data_def Let_def default_user_data_def)

theorem add_preference_unknown_category_witness:
  "map_of (preferences (user_data (new_user []))) ''language'' = None
   \<and> user_data (add_preference (new_user []) ''language'' ''fr'')
       = default_user_data ''2026-01-01T00:00:00''
   \<and> user_file (add_preference (new_user []) ''language'' ''fr'')
       = Some (default_user_data ''2026-01-01T00:00:00'')"
proof -
  have n: "map_of (preferences (user_data (new_user []))) ''language'' = None"
    by (simp add: new_user_eval default_user_data_def)
  from add_preference_unknown_category [OF n, of "''fr''"] n show ?thesis
    by (simp add: new_user_eval)
qed

section \<open>Analysis of an empty history\<close>

text \<open>
  C8. For every profile whose history is empty and every catalog, \<^verbatim>\<open>analyze_preferences\<close>
  returns the fixed report: the message "Not enough data to analyze preferences" with the
  one generic suggestion. It returns (the function is total, so nothing is raised), and the
  report is the same whatever the catalog and the ratings are: nothing is looked up and
  nothing is computed.
\<close>

theorem analyze_empty_history:
  assumes "history (user_data self) = []"
  shows "analyze_preferences round2 self
       = Not_Enough_Data ''Not enough data to analyze preferences''
           [''Start reading books to get personalized recommendations'']
    \<and> analyze_preferences round2' (self\<lparr>catalog := books\<rparr>)
       = analyze_preferences round2 self"
  using assms by (simp add: analyze_preferences_def)

theorem analyze_empty_history_witness:
  "history (user_data (new_user [book_A, book_B])) = []
   \<and> analyze_preferences id (new_user [book_A, book_B])
       = Not_Enough_Data ''Not enough data to analyze preferences''
           [''Start reading books to get personalized recommendations'']
   \<and> analyze_preferences id (new_user [book_A, book_B]\<lparr>catalog := []\<rparr>)
       = analyze_preferences id (new_user [book_A, book_B])"
proof -
  have h: "history (user_data (new_user [book_A, book_B])) = []"
    by (simp add: new_user_eval default_user_data_def)
  from analyze_empty_history [OF h, of id id "[]"] h show ?thesis
    by simp
qed

section \<open>Recommendations\<close>

lemma foldl_append_pairs:
  "foldl (\<lambda>acc b. acc @ [(b, f b)]) a xs = a @ map (\<lambda>b. (b, f b)) xs"
  by (induction xs arbitrary: a) simp_all

lemma insort_key_snd_pairs:
  "insort_key snd (b, f b) (map (\<lambda>b. (b, f b)) ys) = map (\<lambda>b. (b, f b)) (insort_key f b ys)"
  by (induction ys) simp_all

lemma sort_key_snd_pairs:
  "sort_key snd (map (\<lambda>b. (b, f b)) xs) = map (\<lambda>b. (b, f b)) (sort_key f xs)"
  by (induction xs) (simp_all add: insort_key_snd_pairs)

lemma sorted_reverse_pairs:
  "sorted_reverse snd (map (\<lambda>b. (b, f b)) xs) = map (\<lambda>b. (b, f b)) (sorted_reverse f xs)"
  by (simp add: sorted_reverse_def rev_map sort_key_snd_pairs)

lemma sorted_map_uminus_rev:
  fixes f :: "'a \<Rightarrow> int"
  shows "sorted (map (\<lambda>x. - f x) (rev ys)) = sorted (map f ys)"
  by (simp add: sorted_map sorted_wrt_rev)

lemma sorted_reverse_descending:
  fixes f :: "'a \<Rightarrow> int"
  shows "sorted_reverse f xs = stable_sort_descending f xs"
proof -
  let ?ys = "rev (sort_key f (rev xs))"
  have m: "mset ?ys = mset xs" by simp
  have s: "filter (\<lambda>x. - f k = - f x) ?ys = filter (\<lambda>x. - f k = - f x) xs" for k
  proof -
    have "filter (\<lambda>x. f x = f k) (sort_key f (rev xs)) = filter (\<lambda>x. f x = f k) (rev xs)"
      by (rule sort_key_stable)
    then have "rev (filter (\<lambda>x. f x = f k) (sort_key f (rev xs)))
        = rev (filter (\<lambda>x. f x = f k) (rev xs))"
      by simp
    then have "filter (\<lambda>x. f x = f k) ?ys = filter (\<lambda>x. f x = f k) xs"
      by (simp add: rev_filter)
    moreover have "(\<lambda>x. - f k = - f x) = (\<lambda>x. f x = f k)" by auto
    ultimately show ?thesis by simp
  qed
  have o: "sorted (map (\<lambda>x. - f x) ?ys)"
    by (simp only: sorted_map_uminus_rev sorted_sort_key)
  have "sort_key (\<lambda>x. - f x) xs = ?ys"
    by (rule properties_for_sort_key [OF m s o])
  then show ?thesis
    by (simp add: sorted_reverse_def stable_sort_descending_def)
qed

lemma recommendations_eq:
  assumes "catalog self \<noteq> []"
  shows "get_recommendations self n
     = py_slice_to
         (filter (not_interacted (user_data self))
            (stable_sort_descending (calculate_relevance_score self) (catalog self)))
         n"
proof -
  let ?f = "calculate_relevance_score self"
  let ?keep = "\<lambda>(book, score::int).
      case ident book of None \<Rightarrow> True
      | Some i \<Rightarrow> i \<notin> set (map book_id (history (user_data self)))"
  have pairs: "foldl (\<lambda>book_scores book. book_scores @ [(book, ?f book)]) [] (catalog self)
      = map (\<lambda>b. (b, ?f b)) (catalog self)"
    by (simp add: foldl_append_pairs)
  have keep: "map fst (filter ?keep (map (\<lambda>b. (b, ?f b)) ys))
      = filter (not_interacted (user_data self)) ys" for ys
    by (induction ys) (simp_all add: not_interacted_def)
  have "get_recommendations self n
      = py_slice_to
          (map fst (filter ?keep (map (\<lambda>b. (b, ?f b)) (sorted_reverse ?f (catalog self))))) n"
    using assms
    by (simp only: get_recommendations_def Let_def pairs sorted_reverse_pairs if_False)
  then show ?thesis
    by (simp only: keep sorted_reverse_descending)
qed

lemma recommendations_empty_catalog:
  assumes "catalog self = []"
  shows "get_recommendations self n = []"
  using assms by (simp add: get_recommendations_def get_default_recommendations_def)

lemma set_py_slice_to: "set (py_slice_to xs n) \<subseteq> set xs"
  by (auto simp: py_slice_to_def dest: in_set_takeD)

lemma set_stable_sort_descending: "set (stable_sort_descending f xs) = set xs"
  by (simp add: stable_sort_descending_def)

lemma score_scifi_A: "calculate_relevance_score (scifi_reader books) book_A = 8"
  by (simp add: score_eq_score_sum scifi_reader_shaped score_sum_scifi_A)

lemma score_scifi_B: "calculate_relevance_score (scifi_reader books) book_B = 0"
  by (simp add: score_eq_score_sum scifi_reader_shaped score_sum_def scifi_reader_prefs
      pref_list_def common_def get_or_def rating_bonus_def book_defs)

lemma score_viewed_B:
  "calculate_relevance_score (scifi_reader_viewed_B books) b
     = calculate_relevance_score (scifi_reader books) b"
  by (rule score_unchanged_prefs)
    (simp add: scifi_reader_viewed_B_def user_data_record_interaction)

lemma history_viewed_B: "map book_id (history (user_data (scifi_reader_viewed_B books))) = [''B'']"
  by (simp add: scifi_reader_viewed_B_def user_data_record_interaction scifi_reader_history)

lemma catalog_viewed_B: "catalog (scifi_reader_viewed_B books) = books"
  by (simp add: scifi_reader_viewed_B_def record_interaction_def save_user_data_def Let_def
      scifi_reader_catalog)

lemma catalog_new_user: "catalog (new_user books) = books"
  by (simp add: new_user_eval)

lemma history_new_user: "history (user_data (new_user books)) = []"
  by (simp add: new_user_eval default_user_data_def)

lemma ident_A: "ident book_A = Some ''A''"
  by (simp add: book_defs)

lemma ident_B: "ident book_B = Some ''B''"
  by (simp add: book_defs)

lemma length_py_slice_to: "0 \<le> n \<Longrightarrow> length (py_slice_to xs n) \<le> nat n"
  by (simp add: py_slice_to_def)

text \<open>
  C2. For every profile, every catalog and every count \<open>n\<close> (an \<open>n\<close> that is not
  negative), \<^verbatim>\<open>get_recommendations\<close> returns at most \<open>n\<close> items; every item that it
  returns is an item of the catalog, and no returned item's id is the \<^verbatim>\<open>book_id\<close> of an
  interaction of the history.
\<close>

theorem recommendations_bounded:
  "set (get_recommendations self n) \<subseteq> set (catalog self)
   \<and> (\<forall>b \<in> set (get_recommendations self n).
         \<forall>h \<in> set (history (user_data self)). ident b \<noteq> Some (book_id h))
   \<and> (0 \<le> n \<longrightarrow> length (get_recommendations self n) \<le> nat n)"
proof (cases "catalog self = []")
  case True
  then show ?thesis by (simp add: recommendations_empty_catalog)
next
  case False
  let ?r = "filter (not_interacted (user_data self))
      (stable_sort_descending (calculate_relevance_score self) (catalog self))"
  have eq: "get_recommendations self n = py_slice_to ?r n"
    using False by (rule recommendations_eq)
  have sub: "set (py_slice_to ?r n) \<subseteq> set ?r" by (rule set_py_slice_to)
  have 1: "set (get_recommendations self n) \<subseteq> set (catalog self)"
    using sub unfolding eq by (auto simp: set_stable_sort_descending)
  have 2: "ident b \<noteq> Some (book_id h)"
    if "b \<in> set (get_recommendations self n)" and "h \<in> set (history (user_data self))"
    for b h
  proof -
    from that(1) sub have "not_interacted (user_data self) b" unfolding eq by auto
    with that(2) show ?thesis
      by (auto simp: not_interacted_def split: option.splits)
  qed
  have 3: "0 \<le> n \<longrightarrow> length (get_recommendations self n) \<le> nat n"
    unfolding eq by (simp add: length_py_slice_to)
  from 1 2 3 show ?thesis by blast
qed

lemma recommend_viewed_B:
  "get_recommendations (scifi_reader_viewed_B [book_B, book_A]) 2 = [book_A]"
proof -
  have "catalog (scifi_reader_viewed_B [book_B, book_A]) \<noteq> []"
    by (simp add: catalog_viewed_B)
  then show ?thesis
    by (simp add: recommendations_eq catalog_viewed_B stable_sort_descending_def
        score_viewed_B score_scifi_A score_scifi_B not_interacted_def history_viewed_B
        ident_A ident_B py_slice_to_def)
qed

theorem recommendations_bounded_witness:
  "get_recommendations (scifi_reader_viewed_B [book_B, book_A]) 2 = [book_A]
   \<and> set (get_recommendations (scifi_reader_viewed_B [book_B, book_A]) 2)
       \<subseteq> set (catalog (scifi_reader_viewed_B [book_B, book_A]))
   \<and> ident book_A \<noteq> Some ''B''
   \<and> length (get_recommendations (scifi_reader_viewed_B [book_B, book_A]) 2) \<le> nat 2"
proof -
  note t = recommendations_bounded [of "scifi_reader_viewed_B [book_B, book_A]" 2]
  from t have 1: "set (get_recommendations (scifi_reader_viewed_B [book_B, book_A]) 2)
       \<subseteq> set (catalog (scifi_reader_viewed_B [book_B, book_A]))"
    by (elim conjE)
  from t have 3: "length (get_recommendations (scifi_reader_viewed_B [book_B, book_A]) 2) \<le> nat 2"
    by simp
  from 1 3 show ?thesis
    by (simp add: recommend_viewed_B ident_A)
qed

lemma mset_stable_sort_descending: "mset (stable_sort_descending f xs) = mset xs"
  by (simp add: stable_sort_descending_def)

lemma sorted_stable_sort_descending: "sorted (rev (map f (stable_sort_descending f xs)))"
proof -
  have "sorted (map (\<lambda>x. - f x) (sort_key (\<lambda>x. - f x) xs))"
    by (rule sorted_sort_key)
  then show ?thesis
    by (simp add: stable_sort_descending_def rev_map sorted_map sorted_wrt_rev)
qed

lemma stable_stable_sort_descending:
  "filter (\<lambda>x. f x = k) (stable_sort_descending f xs) = filter (\<lambda>x. f x = k) xs"
proof -
  have "filter (\<lambda>x. - f x = - k) (sort_key (\<lambda>x. - f x) xs) = filter (\<lambda>x. - f x = - k) xs"
    by (rule sort_key_stable)
  then show ?thesis
    by (simp add: stable_sort_descending_def)
qed

text \<open>
  C3. For every profile, every catalog that is not empty and every count \<open>n\<close> (an \<open>n\<close>
  that is not negative), \<^verbatim>\<open>get_recommendations\<close> returns the list obtained by scoring
  every book of the catalog, sorting descending on the score, removing the books whose id
  is in the history, and taking the first \<open>n\<close>; when no more than \<open>n\<close> books remain they
  are all returned, and nothing else. The sort is a stable descending sort: it permutes
  the list, the scores of the result never increase, and the books of one score keep the
  order of the catalog. (The slice \<^verbatim>\<open>[:n]\<close> reads an \<open>n\<close> below zero as "without the
  last \<open>-n\<close>".)
\<close>

theorem recommendations_sorted_filtered_truncated:
  assumes "catalog self \<noteq> []"
  shows "(0 \<le> n \<longrightarrow> get_recommendations self n = recommend_spec self n)
    \<and> (int (length (filter (not_interacted (user_data self))
            (stable_sort_descending (calculate_relevance_score self) (catalog self)))) \<le> n
       \<longrightarrow> get_recommendations self n
           = filter (not_interacted (user_data self))
               (stable_sort_descending (calculate_relevance_score self) (catalog self)))
    \<and> (n < 0 \<longrightarrow> get_recommendations self n
           = rev (drop (nat (- n)) (rev (filter (not_interacted (user_data self))
               (stable_sort_descending (calculate_relevance_score self) (catalog self))))))
    \<and> mset (stable_sort_descending (calculate_relevance_score self) (catalog self))
       = mset (catalog self)
    \<and> sorted (rev (map (calculate_relevance_score self)
         (stable_sort_descending (calculate_relevance_score self) (catalog self))))
    \<and> filter (\<lambda>b. calculate_relevance_score self b = k)
         (stable_sort_descending (calculate_relevance_score self) (catalog self))
       = filter (\<lambda>b. calculate_relevance_score self b = k) (catalog self)"
proof -
  let ?r = "filter (not_interacted (user_data self))
      (stable_sort_descending (calculate_relevance_score self) (catalog self))"
  have eq: "get_recommendations self n = py_slice_to ?r n"
    using assms by (rule recommendations_eq)
  have 1: "0 \<le> n \<longrightarrow> get_recommendations self n = recommend_spec self n"
    unfolding eq by (simp add: py_slice_to_def recommend_spec_def)
  have 2: "int (length ?r) \<le> n \<longrightarrow> get_recommendations self n = ?r"
    unfolding eq by (simp add: py_slice_to_def)
  have 3: "n < 0 \<longrightarrow> get_recommendations self n = rev (drop (nat (- n)) (rev ?r))"
    unfolding eq by (simp add: py_slice_to_def rev_drop)
  from 1 2 3 show ?thesis
    by (simp only: mset_stable_sort_descending sorted_stable_sort_descending
        stable_stable_sort_descending simp_thms)
qed

lemma recommend_scifi_BA:
  "filter (not_interacted (user_data (scifi_reader bs)))
     (stable_sort_descending (calculate_relevance_score (scifi_reader bs)) [book_B, book_A])
   = [book_A, book_B]"
  by (simp add: stable_sort_descending_def score_scifi_A score_scifi_B not_interacted_def
      scifi_reader_history ident_A ident_B)

theorem recommendations_sorted_filtered_truncated_witness:
  "catalog (scifi_reader [book_B, book_A]) \<noteq> []
   \<and> get_recommendations (scifi_reader [book_B, book_A]) 2 = [book_A, book_B]
   \<and> recommend_spec (scifi_reader [book_B, book_A]) 2 = [book_A, book_B]
   \<and> get_recommendations (scifi_reader [book_B, book_A]) 1 = [book_A]"
proof -
  have c: "catalog (scifi_reader [book_B, book_A]) \<noteq> []"
    by (simp add: scifi_reader_catalog)
  have r: "recommend_spec (scifi_reader [book_B, book_A]) n = take (nat n) [book_A, book_B]" for n
    by (simp add: recommend_spec_def scifi_reader_catalog recommend_scifi_BA)
  from recommendations_sorted_filtered_truncated [OF c, of 2]
  have 2: "get_recommendations (scifi_reader [book_B, book_A]) 2
      = recommend_spec (scifi_reader [book_B, book_A]) 2"
    by simp
  from recommendations_sorted_filtered_truncated [OF c, of 1]
  have 1: "get_recommendations (scifi_reader [book_B, book_A]) 1
      = recommend_spec (scifi_reader [book_B, book_A]) 1"
    by simp
  from c 1 2 show ?thesis by (simp add: r)
qed

section \<open>The continue_reading part of the feed\<close>

lemma foldl_in_progress:
  "foldl (\<lambda>in_progress interaction.
            if action interaction = ''started''
            then (let bid = book_id interaction;
                      completed =
                        list_ex (\<lambda>h. book_id h = bid \<and> action h = ''completed'') hist
                  in if \<not> completed
                     then (case get_book_by_id self bid of
                             None \<Rightarrow> in_progress
                           | Some book \<Rightarrow> in_progress @ [book])
                     else in_progress)
            else in_progress)
     acc hs
   = acc @ List.map_filter (get_book_by_id self)
       (map book_id
          (filter (\<lambda>h. action h = ''started''
                     \<and> \<not> list_ex (\<lambda>h'. book_id h' = book_id h \<and> action h' = ''completed'')
                           hist)
             hs))"
  by (induction hs arbitrary: acc) (simp_all add: Let_def map_filter_simps split: option.splits)

lemma continue_reading_eq:
  "get_continue_reading self
     = take 3 (List.map_filter (get_book_by_id self) (in_progress_ids (user_data self)))"
  by (simp add: get_continue_reading_def Let_def foldl_in_progress in_progress_ids_def
      py_slice_to_def)

lemma first_occurrences_distinct:
  assumes "distinct xs"
  shows "first_occurrences xs = xs"
proof -
  from assms have "distinct (rev xs)" by simp
  then have r: "remdups (rev xs) = rev xs" by (rule distinct_remdups_id)
  show ?thesis unfolding first_occurrences_def r by (rule rev_rev_ident)
qed

lemma get_book_by_id_catalog:
  "get_book_by_id self bid = Some b \<Longrightarrow> b \<in> set (catalog self) \<and> ident b = Some bid"
  by (auto simp: get_book_by_id_def find_Some_iff)

lemma set_map_filter_catalog:
  "set (List.map_filter (get_book_by_id self) ids) \<subseteq> set (catalog self)"
  by (auto simp: map_filter_def dest: get_book_by_id_catalog)

text \<open>
  C4, as the code has it. For every profile and catalog, the continue_reading part is made
  of the catalog entries (the first book of the catalog with that id) of the ids that have
  a \<^verbatim>\<open>started\<close> interaction and no \<^verbatim>\<open>completed\<close> interaction anywhere in the history, one
  entry per \<^verbatim>\<open>started\<close> interaction and in the order of the history, ids with no entry
  in the catalog omitted, truncated to 3. Nothing is deduplicated: an id that is started
  twice is listed twice. Where every id in progress is started once, the part is the
  deduplicated list of the specification.
\<close>

theorem continue_reading_per_started_interaction:
  "get_continue_reading self
     = take 3 (List.map_filter (get_book_by_id self) (in_progress_ids (user_data self)))
   \<and> continue_reading (generate_personalized_feed fromisoformat now now_iso self)
     = get_continue_reading self
   \<and> set (get_continue_reading self) \<subseteq> set (catalog self)
   \<and> length (get_continue_reading self) \<le> 3
   \<and> (distinct (in_progress_ids (user_data self))
      \<longrightarrow> get_continue_reading self = continue_reading_spec self)"
proof -
  have 1: "set (get_continue_reading self) \<subseteq> set (catalog self)"
    unfolding continue_reading_eq
    using set_map_filter_catalog [of self "in_progress_ids (user_data self)"]
    by (auto dest: in_set_takeD)
  have 2: "distinct (in_progress_ids (user_data self))
      \<longrightarrow> get_continue_reading self = continue_reading_spec self"
    by (simp add: continue_reading_eq continue_reading_spec_def first_occurrences_distinct)
  have 3: "length (get_continue_reading self) \<le> 3"
    by (simp add: continue_reading_eq)
  have 4: "continue_reading (generate_personalized_feed fromisoformat now now_iso self)
      = get_continue_reading self"
    by (simp add: generate_personalized_feed_def)
  from 1 2 3 4 continue_reading_eq [of self] show ?thesis by blast
qed

lemma history_reader_in_progress:
  "history (user_data (reader_in_progress books)) =
     [\<lparr> book_id = ''A'', action = ''started'', timestamp = ''2026-01-02T00:00:00'',
        rating = None \<rparr>,
      \<lparr> book_id = ''B'', action = ''started'', timestamp = ''2026-01-03T00:00:00'',
        rating = None \<rparr>,
      \<lparr> book_id = ''B'', action = ''completed'', timestamp = ''2026-01-04T00:00:00'',
        rating = None \<rparr>,
      \<lparr> book_id = ''Z'', action = ''started'', timestamp = ''2026-01-05T00:00:00'',
        rating = None \<rparr>]"
  by (simp add: reader_in_progress_def user_data_record_interaction history_new_user)

lemma catalog_record_interaction:
  "catalog (record_interaction self bid act r t) = catalog self"
  by (simp add: record_interaction_def save_user_data_def Let_def)

lemma in_progress_ids_reader:
  "in_progress_ids (user_data (reader_in_progress books)) = [''A'', ''Z'']"
  by (simp add: in_progress_ids_def history_reader_in_progress)

lemma lookup_AB:
  assumes "catalog self = [book_A, book_B]"
  shows "get_book_by_id self ''A'' = Some book_A"
    and "get_book_by_id self ''B'' = Some book_B"
    and "get_book_by_id self ''Z'' = None"
  using assms by (simp_all add: get_book_by_id_def ident_A ident_B)

theorem continue_reading_per_started_interaction_witness:
  "distinct (in_progress_ids (user_data (reader_in_progress [book_A, book_B])))
   \<and> get_continue_reading (reader_in_progress [book_A, book_B]) = [book_A]
   \<and> continue_reading_spec (reader_in_progress [book_A, book_B]) = [book_A]"
proof -
  have d: "distinct (in_progress_ids (user_data (reader_in_progress [book_A, book_B])))"
    by (simp add: in_progress_ids_reader)
  have c: "catalog (reader_in_progress [book_A, book_B]) = [book_A, book_B]"
    by (simp add: reader_in_progress_def catalog_record_interaction catalog_new_user)
  note t = continue_reading_per_started_interaction
    [of "reader_in_progress [book_A, book_B]" "\<lambda>s. None" 0 "[]"]
  from t have 1: "get_continue_reading (reader_in_progress [book_A, book_B])
      = take 3 (List.map_filter (get_book_by_id (reader_in_progress [book_A, book_B]))
          (in_progress_ids (user_data (reader_in_progress [book_A, book_B]))))"
    by (elim conjE)
  from t d have 2: "get_continue_reading (reader_in_progress [book_A, book_B])
      = continue_reading_spec (reader_in_progress [book_A, book_B])"
    by blast
  have 3: "get_continue_reading (reader_in_progress [book_A, book_B]) = [book_A]"
    unfolding 1 by (simp add: in_progress_ids_reader map_filter_simps lookup_AB [OF c])
  from d 2 3 show ?thesis by simp
qed

text \<open>
  The claim as it is written fails where a book is started twice: the part lists it twice.
\<close>

theorem continue_reading_duplicate_counterexample:
  "get_continue_reading (started_twice [book_A, book_B]) = [book_A, book_A]
   \<and> continue_reading_spec (started_twice [book_A, book_B]) = [book_A]
   \<and> \<not> distinct (map ident (get_continue_reading (started_twice [book_A, book_B])))"
proof -
  have c: "catalog (started_twice [book_A, book_B]) = [book_A, book_B]"
    by (simp add: started_twice_def catalog_record_interaction catalog_new_user)
  have i: "in_progress_ids (user_data (started_twice [book_A, book_B])) = [''A'', ''A'']"
    by (simp add: in_progress_ids_def started_twice_def user_data_record_interaction
        history_new_user)
  have 1: "get_continue_reading (started_twice [book_A, book_B]) = [book_A, book_A]"
    by (simp add: continue_reading_eq i map_filter_simps lookup_AB [OF c])
  have 2: "continue_reading_spec (started_twice [book_A, book_B]) = [book_A]"
    by (simp add: continue_reading_spec_def first_occurrences_def i map_filter_simps
        lookup_AB [OF c])
  from 1 2 show ?thesis by simp
qed

section \<open>The new_in_genres part of the feed\<close>

lemma foldl_append_if:
  "foldl (\<lambda>acc x. if P x then acc @ [x] else acc) a xs = a @ filter P xs"
  by (induction xs arbitrary: a) simp_all

lemma int_div_le_iff:
  fixes d m k :: int
  assumes "0 < m"
  shows "(d div m \<le> k) = (d < (k + 1) * m)"
proof -
  have s: "(d + (- (k + 1)) * m) div m = - (k + 1) + d div m"
    using assms by simp
  have "(d div m \<le> k) = (- (k + 1) + d div m < 0)" by linarith
  also have "\<dots> = ((d + (- (k + 1)) * m) div m < 0)" by (simp only: s)
  also have "\<dots> = (d + (- (k + 1)) * m < 0)" using assms by (rule pos_imp_zdiv_neg_iff)
  also have "\<dots> = (d < (k + 1) * m)" by (simp add: algebra_simps)
  finally show ?thesis .
qed

lemma timedelta_days_le_30:
  "(timedelta_days delta \<le> 30) = (delta < 31 * microseconds_per_day)"
proof -
  have "0 < microseconds_per_day" by (simp add: microseconds_per_day_def)
  from int_div_le_iff [OF this, of delta 30] show ?thesis
    by (simp add: timedelta_days_def)
qed

lemma within_last_30_days_admitted:
  assumes "within_last_30_days now date"
  shows "timedelta_days (now - date) \<le> 30"
proof -
  have "0 < microseconds_per_day" by (simp add: microseconds_per_day_def)
  with assms have "now - date < 31 * microseconds_per_day"
    by (simp add: within_last_30_days_def)
  then show ?thesis by (simp only: timedelta_days_le_30)
qed

lemma shares_genre_py_in:
  assumes "list_or_absent p ''genres''"
  shows "list_ex (\<lambda>g. py_in g (dict_get (preferences p) ''genres'' (PList []))) gs
     = list_ex (\<lambda>g. g \<in> set (pref_list p ''genres'')) gs"
  by (simp add: py_in_pref [OF assms])

lemma new_in_preferred_genres_eq:
  assumes "list_or_absent (user_data self) ''genres''"
  shows "get_new_in_preferred_genres fromisoformat now self
     = take 5
         (filter (\<lambda>b. shares_genre (user_data self) b
                    \<and> added_within fromisoformat (\<lambda>date. timedelta_days (now - date) \<le> 30) b)
            (catalog self))"
proof -
  let ?P = "\<lambda>b. shares_genre (user_data self) b
      \<and> added_within fromisoformat (\<lambda>date. timedelta_days (now - date) \<le> 30) b"
  have step: "(\<lambda>new_books book.
        if list_ex (\<lambda>g. py_in g (dict_get (preferences (user_data self)) ''genres''
                            (PList []))) (get_or (genres book) [])
        then if get_or (added_date book) '''' \<noteq> ''''
             then (case fromisoformat (get_or (added_date book) '''') of
                     None \<Rightarrow> new_books
                   | Some date \<Rightarrow>
                       if timedelta_days (now - date) \<le> 30
                       then new_books @ [book]
                       else new_books)
             else new_books
        else new_books)
      = (\<lambda>new_books book. if ?P book then new_books @ [book] else new_books)"
    by (intro ext)
      (auto simp: shares_genre_py_in [OF assms] shares_genre_def added_within_def
        get_or_def split: option.splits)
  show ?thesis
    unfolding get_new_in_preferred_genres_def Let_def step foldl_append_if
    by (simp add: py_slice_to_def)
qed

lemma added_within_cong:
  assumes "\<And>s date. added_date b = Some s \<Longrightarrow> fromisoformat s = Some date
      \<Longrightarrow> recent date = recent' date"
  shows "added_within fromisoformat recent b = added_within fromisoformat recent' b"
  using assms by (auto simp: added_within_def split: option.splits)

text \<open>
  C7, as the code has it. For every profile whose genres preference is a list and every
  catalog, the new_in_genres part is made of the books of the catalog, in its order, that
  share a genre with the profile and whose \<^verbatim>\<open>added_date\<close> is there, is not empty, parses,
  and denotes an instant less than 31 days before \<open>now\<close>, truncated to 5. A book whose
  \<^verbatim>\<open>added_date\<close> is missing or does not parse is left out; nothing is raised. The test has
  no lower bound: an instant after \<open>now\<close> passes it. Where every date of the catalog that
  parses is not after \<open>now\<close> and is not between 30 and 31 days old, the part is the one of
  the specification.
\<close>

theorem new_in_genres_as_coded:
  assumes "list_or_absent (user_data self) ''genres''"
  shows "get_new_in_preferred_genres fromisoformat now self
       = take 5
           (filter (\<lambda>b. shares_genre (user_data self) b
                      \<and> added_within fromisoformat
                           (\<lambda>date. now - date < 31 * microseconds_per_day) b)
              (catalog self))
    \<and> new_in_genres (generate_personalized_feed fromisoformat now now_iso self)
       = get_new_in_preferred_genres fromisoformat now self
    \<and> ((\<forall>b \<in> set (catalog self). \<forall>s date.
           added_date b = Some s \<longrightarrow> fromisoformat s = Some date
           \<longrightarrow> 0 \<le> now - date
               \<and> (now - date \<le> 30 * microseconds_per_day
                  \<or> 31 * microseconds_per_day \<le> now - date))
       \<longrightarrow> get_new_in_preferred_genres fromisoformat now self
           = new_in_genres_spec fromisoformat now self)"
proof -
  have 1: "get_new_in_preferred_genres fromisoformat now self
       = take 5
           (filter (\<lambda>b. shares_genre (user_data self) b
                      \<and> added_within fromisoformat
                           (\<lambda>date. now - date < 31 * microseconds_per_day) b)
              (catalog self))"
    by (simp only: new_in_preferred_genres_eq [OF assms] timedelta_days_le_30)
  have 2: "new_in_genres (generate_personalized_feed fromisoformat now now_iso self)
       = get_new_in_preferred_genres fromisoformat now self"
    by (simp add: generate_personalized_feed_def)
  have 3: "get_new_in_preferred_genres fromisoformat now self
       = new_in_genres_spec fromisoformat now self"
    if h: "\<forall>b \<in> set (catalog self). \<forall>s date.
           added_date b = Some s \<longrightarrow> fromisoformat s = Some date
           \<longrightarrow> 0 \<le> now - date
               \<and> (now - date \<le> 30 * microseconds_per_day
                  \<or> 31 * microseconds_per_day \<le> now - date)"
  proof -
    have "added_within fromisoformat (\<lambda>date. now - date < 31 * microseconds_per_day) b
        = added_within fromisoformat (within_last_30_days now) b"
      if b: "b \<in> set (catalog self)" for b
    proof (rule added_within_cong)
      fix s date
      assume "added_date b = Some s" and "fromisoformat s = Some date"
      with h b have "0 \<le> now - date
          \<and> (now - date \<le> 30 * microseconds_per_day
             \<or> 31 * microseconds_per_day \<le> now - date)"
        by blast
      then show "(now - date < 31 * microseconds_per_day) = within_last_30_days now date"
        by (auto simp: within_last_30_days_def microseconds_per_day_def)
    qed
    then have "filter (\<lambda>b. shares_genre (user_data self) b
                      \<and> added_within fromisoformat
                           (\<lambda>date. now - date < 31 * microseconds_per_day) b)
              (catalog self)
        = filter (\<lambda>b. shares_genre (user_data self) b
                      \<and> added_within fromisoformat (within_last_30_days now) b)
              (catalog self)"
      by (intro filter_cong) auto
    then show ?thesis
      by (simp only: 1 new_in_genres_spec_def)
  qed
  from 1 2 3 show ?thesis by blast
qed

lemma scifi_reader_genres_shaped: "list_or_absent (user_data (scifi_reader books)) ''genres''"
  by (simp add: list_or_absent_def scifi_reader_prefs)

lemma shares_genre_scifi:
  "shares_genre (user_data (scifi_reader books)) b = (''scifi'' \<in> set (get_or (genres b) []))"
  by (simp add: shares_genre_def pref_list_def scifi_reader_prefs list_ex_iff)

lemmas dated_book_defs =
  book_recent_def book_old_def book_unparseable_def book_undated_def book_future_def
  no_fields_def

lemma genres_dated_books:
  "get_or (genres book_recent) [] = [''scifi'']"
  "get_or (genres book_old) [] = [''scifi'']"
  "get_or (genres book_unparseable) [] = [''scifi'']"
  "get_or (genres book_undated) [] = [''scifi'']"
  "get_or (genres book_future) [] = [''scifi'']"
  "get_or (genres book_B) [] = []"
  by (simp_all add: dated_book_defs book_B_def get_or_def)

lemma added_within_dated_books:
  "added_within example_fromisoformat recent book_recent = recent (- 7 * microseconds_per_day)"
  "added_within example_fromisoformat recent book_old = recent (- 40 * microseconds_per_day)"
  "added_within example_fromisoformat recent book_unparseable = False"
  "added_within example_fromisoformat recent book_undated = False"
  "added_within example_fromisoformat recent book_future = recent (365 * microseconds_per_day)"
  by (simp_all add: added_within_def dated_book_defs example_fromisoformat_def)

theorem new_in_genres_as_coded_witness:
  "list_or_absent
     (user_data
        (scifi_reader [book_old, book_recent, book_unparseable, book_undated, book_B]))
     ''genres''
   \<and> get_new_in_preferred_genres example_fromisoformat 0
       (scifi_reader [book_old, book_recent, book_unparseable, book_undated, book_B])
     = [book_recent]
   \<and> new_in_genres_spec example_fromisoformat 0
       (scifi_reader [book_old, book_recent, book_unparseable, book_undated, book_B])
     = [book_recent]"
proof -
  let ?self = "scifi_reader [book_old, book_recent, book_unparseable, book_undated, book_B]"
  have l: "list_or_absent (user_data ?self) ''genres''"
    by (rule scifi_reader_genres_shaped)
  have h: "\<forall>b \<in> set (catalog ?self). \<forall>s date.
           added_date b = Some s \<longrightarrow> example_fromisoformat s = Some date
           \<longrightarrow> 0 \<le> 0 - date
               \<and> (0 - date \<le> 30 * microseconds_per_day
                  \<or> 31 * microseconds_per_day \<le> 0 - date)"
    by (simp add: scifi_reader_catalog dated_book_defs book_B_def example_fromisoformat_def
        microseconds_per_day_def)
  note t = new_in_genres_as_coded [OF l, of example_fromisoformat 0 "[]"]
  from t have 1: "get_new_in_preferred_genres example_fromisoformat 0 ?self
      = take 5
           (filter (\<lambda>b. shares_genre (user_data ?self) b
                      \<and> added_within example_fromisoformat
                           (\<lambda>date. 0 - date < 31 * microseconds_per_day) b)
              (catalog ?self))"
    by (elim conjE)
  from t h have 2: "get_new_in_preferred_genres example_fromisoformat 0 ?self
      = new_in_genres_spec example_fromisoformat 0 ?self"
    by blast
  have 3: "get_new_in_preferred_genres example_fromisoformat 0 ?self = [book_recent]"
    unfolding 1
    by (simp add: scifi_reader_catalog shares_genre_scifi genres_dated_books
        added_within_dated_books microseconds_per_day_def)
  from l 2 3 show ?thesis by simp
qed

text \<open>
  A book dated one year after \<open>now\<close> is listed as new, though its date is not within the
  last 30 days.
\<close>

theorem new_in_genres_future_date_counterexample:
  "get_new_in_preferred_genres example_fromisoformat 0 (scifi_reader [book_future])
     = [book_future]
   \<and> new_in_genres_spec example_fromisoformat 0 (scifi_reader [book_future]) = []
   \<and> \<not> within_last_30_days 0 (365 * microseconds_per_day)"
  by (simp add: new_in_preferred_genres_eq [OF scifi_reader_genres_shaped]
      new_in_genres_spec_def scifi_reader_catalog shares_genre_scifi genres_dated_books
      added_within_dated_books timedelta_days_le_30 within_last_30_days_def
      microseconds_per_day_def)

end
